theory Spec2Isabelle
  imports Complex_Main "HOL-Library.AList"
begin

section \<open>The local service registry (wrangler, dev-registry.tsx)\<close>

subsection \<open>Data\<close>

text \<open>
  A \<open>WorkerDefinition\<close> is the TypeScript object type of the same name. The registry
  stores whatever JSON object a client posts (line 77), so every field may be missing
  from a stored definition, also \<open>mode\<close> and \<open>durableObjects\<close>: each field is an \<open>option\<close>.
  \<open>JSON.stringify\<close> leaves out a field whose value is \<open>undefined\<close> and reading a missing
  field yields \<open>undefined\<close>, so \<open>None\<close> stands for both and a definition survives the trip
  through JSON unchanged. Numbers are taken to be integers.
\<close>

datatype protocol = Http | Https

datatype mode = Local | Remote

record WorkerDefinition =
  port :: "int option"
  protocol :: "protocol option"
  host :: "string option"
  mode :: "mode option"
  headers :: "(string \<times> string) list option"
  durableObjects :: "(string \<times> string) list option"
  durableObjectsHost :: "string option"
  durableObjectsPort :: "int option"
  handOffReceiverPort :: "int option"

definition emptyObject :: WorkerDefinition where
  \<comment> \<open>the object \<open>{}\<close>\<close>
  "emptyObject =
     \<lparr>port = None, protocol = None, host = None, mode = None, headers = None,
      durableObjects = None, durableObjectsHost = None, durableObjectsPort = None,
      handOffReceiverPort = None\<rparr>"

text \<open>
  A \<open>WorkerRegistry\<close> is a JavaScript object used as a dictionary. It is the list of its
  own entries in the order \<open>Object.entries\<close> and \<open>JSON.stringify\<close> enumerate them. An
  object never has a key twice, so the registries of the program satisfy
  \<open>distinct (map fst ws)\<close>.
\<close>

type_synonym WorkerRegistry = "(string \<times> WorkerDefinition) list"

text \<open>
  The order of the keys of an object: the keys that are array indices (the decimal
  numerals of the integers below \<open>2\<^sup>3\<^sup>2 - 1\<close>, without leading zeros) come first, in
  ascending numeric order, then all other keys in the order in which they were created.
  \<open>setProperty\<close> is \<open>obj[k] = v\<close> for a key other than \<open>__proto__\<close>: the value of an
  existing key is replaced in place, a new key is put where this order has it.
  \<open>delete obj[k]\<close> is \<open>AList.delete k\<close>.
\<close>

definition isDigit :: "char \<Rightarrow> bool" where
  "isDigit c = (48 \<le> (of_char c :: nat) \<and> (of_char c :: nat) \<le> 57)"

definition decimal :: "string \<Rightarrow> nat" where
  "decimal s = foldl (\<lambda>a c. 10 * a + (of_char c - 48)) 0 s"

definition arrayIndex :: "string \<Rightarrow> nat option" where
  "arrayIndex s =
     (if s \<noteq> [] \<and> list_all isDigit s \<and> (s = ''0'' \<or> hd s \<noteq> CHR ''0'')
         \<and> decimal s < 2 ^ 32 - 1
      then Some (decimal s) else None)"

fun insertIndex :: "nat \<Rightarrow> string \<Rightarrow> 'v \<Rightarrow> (string \<times> 'v) list \<Rightarrow> (string \<times> 'v) list" where
  "insertIndex i k v [] = [(k, v)]"
| "insertIndex i k v (x # xs) =
     (case arrayIndex (fst x) of
        Some j \<Rightarrow> if j < i then x # insertIndex i k v xs else (k, v) # x # xs
      | None \<Rightarrow> (k, v) # x # xs)"

definition setProperty :: "string \<Rightarrow> 'v \<Rightarrow> (string \<times> 'v) list \<Rightarrow> (string \<times> 'v) list" where
  "setProperty k v obj =
     (if k \<in> fst ` set obj then AList.update k v obj
      else case arrayIndex k of
             Some i \<Rightarrow> insertIndex i k v obj
           | None \<Rightarrow> obj @ [(k, v)])"

definition fromEntries :: "(string \<times> 'v) list \<Rightarrow> (string \<times> 'v) list" where
  \<comment> \<open>\<open>Object.fromEntries\<close>: the entries are assigned one after the other\<close>
  "fromEntries es = foldl (\<lambda>obj (k, v). AList.update k v obj) [] es"

text \<open>
  A thrown value: \<open>code\<close> is \<open>e.code\<close> and \<open>causeCode\<close> is \<open>e.cause?.code\<close>.
\<close>

datatype js_error = JsError (code: "string option") (causeCode: "string option")

definition causeIsConnectionError :: "js_error \<Rightarrow> bool" where
  \<comment> \<open>\<open>["ECONNRESET", "ECONNREFUSED"].includes(e.cause?.code || "___")\<close>\<close>
  "causeIsConnectionError e =
     ((case causeCode e of None \<Rightarrow> ''___'' | Some c \<Rightarrow> if c \<noteq> [] then c else ''___'')
        \<in> set [''ECONNRESET'', ''ECONNREFUSED''])"

text \<open>
  An HTTP request as \<open>fetch\<close> is given it: the server addressed (\<open>DEV_REGISTRY_HOST\<close>, or
  \<open>http://{host}:{port}\<close> of a hand-off receiver) and the rest of the URL as the template
  literal builds it, so \<open>`${DEV_REGISTRY_HOST}/workers/${name}`\<close> has the path
  \<open>''/workers/'' @ name\<close> with the name spliced in as it is. \<open>reqJson\<close> says whether the
  header \<open>Content-Type: application/json\<close> is given. A body is the object passed to
  \<open>JSON.stringify\<close>.
\<close>

datatype http_method = GET | POST | DELETE

datatype endpoint = DevRegistry | Receiver "string option" "int option"

datatype body = NoBody | DefinitionBody WorkerDefinition | RegistryBody WorkerRegistry

record request =
  reqMethod :: http_method
  reqEndpoint :: endpoint
  reqPath :: string
  reqJson :: bool
  reqBody :: body

text \<open>
  Of a response the program reads only \<open>response.json()\<close>: it fails (the body is not
  JSON), or yields \<open>null\<close> (\<open>None\<close>) or a registry object.
\<close>

datatype response = Response (json: "js_error + WorkerRegistry option")

subsection \<open>Numbers\<close>

text \<open>
  \<open>Math.random()\<close> returns a double \<open>r\<close> with \<open>0 \<le> r < 1\<close>. These doubles are the numbers
  \<open>m / 2\<^sup>k\<close> with \<open>m < 2\<^sup>5\<^sup>3\<close>, \<open>k \<le> 1074\<close> and \<open>m < 2\<^sup>k\<close>; the type \<open>unit_double\<close> holds
  such pairs \<open>(m, k)\<close>.
\<close>

typedef unit_double = "{(m :: nat, k :: nat). m < 2 ^ 53 \<and> m < 2 ^ k \<and> k \<le> 1074}"
  by (rule exI [of _ "(0, 0)"]) simp

definition significand :: "unit_double \<Rightarrow> nat" where
  "significand r = fst (Rep_unit_double r)"

definition scale :: "unit_double \<Rightarrow> nat" where
  "scale r = snd (Rep_unit_double r)"


text \<open>
  The product of the double \<open>m / 2\<^sup>k\<close> and the length \<open>n\<close> of an array is the double
  nearest to \<open>m * n / 2\<^sup>k\<close>, ties going to the even significand. With \<open>p = m * n\<close>:
  \<open>roundShift p\<close> is the number of low bits \<open>p\<close> has beyond 53, \<open>roundHalfEven p s\<close> the
  multiple of \<open>2\<^sup>s\<close> nearest to \<open>p\<close>, and \<open>floorProduct m k n\<close> is \<open>Math.floor\<close> of the
  rounded product.
\<close>

fun roundShift :: "nat \<Rightarrow> nat" where
  "roundShift p = (if p < 2 ^ 53 then 0 else Suc (roundShift (p div 2)))"

declare roundShift.simps [simp del]

definition roundHalfEven :: "nat \<Rightarrow> nat \<Rightarrow> nat" where
  "roundHalfEven p s =
     (let q = p div 2 ^ s; r = p mod 2 ^ s
      in if 2 * r > 2 ^ s \<or> (2 * r = 2 ^ s \<and> odd q) then (q + 1) * 2 ^ s else q * 2 ^ s)"

definition floorProduct :: "nat \<Rightarrow> nat \<Rightarrow> nat \<Rightarrow> nat" where
  "floorProduct m k n = roundHalfEven (m * n) (roundShift (m * n)) div 2 ^ k"

subsection \<open>State, environment and trace\<close>

text \<open>
  The module variables. \<open>server\<close> and \<open>terminator\<close> are assigned together (lines 88-89) and
  never reset, so one field holds both: \<open>None\<close> while they are \<open>undefined\<close>, otherwise the
  state of the HTTP server they refer to. The same holds for \<open>handOffReceiverServer\<close> and
  \<open>handOffReceiverTerminator\<close> (lines 167-168). The module variable \<open>handOffReceiverPort\<close>
  is the field \<open>ownHandOffReceiverPort\<close>, the name being taken by the field of
  \<open>WorkerDefinition\<close>. \<open>peerWorkers\<close> is not a variable of this process: it is the store of
  a RegistryServer that another process holds on the well-known port, \<open>None\<close> when there is
  none; only the network model \<open>loopbackFetch\<close> below touches it.
\<close>

datatype server_status = Created | Listening | Terminated

record world =
  server :: "server_status option"
  handOffReceiverServer :: "server_status option"
  ownHandOffReceiverPort :: "int option"
  workers :: WorkerRegistry
  peerWorkers :: "WorkerRegistry option"

text \<open>
  What the program gets from outside. \<open>fetch\<close> answers a request with a response or a
  thrown error and may change the state: while the caller awaits, the servers of this
  process handle requests. \<open>bindPort\<close> is the outcome of binding the well-known port in
  \<open>isPortAvailable\<close>. \<open>receiverAddress\<close> is \<open>handOffReceiverServer.address()\<close> after
  \<open>listen(0)\<close>: the port, or \<open>None\<close> for \<open>null\<close>, which is what it yields when the bind
  failed; \<open>receiverListenError\<close> is the error the server then emits. \<open>mathRandom\<close> is
  \<open>Math.random()\<close>. \<open>terminate()\<close> of an http-terminator is taken to succeed.
\<close>

datatype bind_outcome = BindListening | BindError js_error

record env =
  fetch :: "request \<Rightarrow> world \<Rightarrow> (js_error + response) \<times> world"
  bindPort :: "world \<Rightarrow> bind_outcome"
  receiverAddress :: "int option"
  receiverListenError :: js_error
  mathRandom :: unit_double

text \<open>
  The trace lists, in order, what a call did that is visible from outside it.
  \<open>Fetch req\<close> is the call of \<open>fetch\<close> with that request.
\<close>

datatype fn = StartWorkerRegistry | StopWorkerRegistry | StopHandOffReceiverServer | HandOff

datatype event =
    Called fn
  | Fetch request
  | Listen endpoint
  | LoggerDebug string
  | LoggerError string
  | ConsoleLog string
  | ConsoleError js_error

subsection \<open>Routing and body parsing\<close>

text \<open>
  What express does with a request before a handler runs. The path ends where a query
  or a fragment begins; a trailing slash is optional; \<open>/workers/:workerId\<close> matches one
  non-empty segment without a slash, and \<open>req.params.workerId\<close> is that segment with its
  percent escapes decoded, a malformed escape being answered with an error. (Escapes are
  decoded byte by byte. The rewriting of the URL by \<open>fetch\<close> before it is sent, of dot
  segments, backslashes and white space, is not modelled, nor is the matching of the
  literal \<open>workers\<close> without regard to case.)
\<close>

definition hexVal :: "char \<Rightarrow> nat option" where
  "hexVal c =
     (let n = (of_char c :: nat)
      in if 48 \<le> n \<and> n \<le> 57 then Some (n - 48)
         else if 65 \<le> n \<and> n \<le> 70 then Some (n - 55)
         else if 97 \<le> n \<and> n \<le> 102 then Some (n - 87)
         else None)"

fun percentDecode :: "string \<Rightarrow> string option" where
  "percentDecode [] = Some []"
| "percentDecode [c] = (if c = CHR ''%'' then None else Some [c])"
| "percentDecode [c, d] = (if c = CHR ''%'' then None else map_option ((#) c) (percentDecode [d]))"
| "percentDecode (c # h1 # h2 # rest) =
     (if c = CHR ''%'' then
        (case (hexVal h1, hexVal h2) of
           (Some a, Some b) \<Rightarrow> map_option ((#) (char_of (16 * a + b))) (percentDecode rest)
         | _ \<Rightarrow> None)
      else map_option ((#) c) (percentDecode (h1 # h2 # rest)))"

datatype route = RouteWorkers | RouteWorker string | RouteBadParam | RouteNone

definition pathOf :: "string \<Rightarrow> string" where
  "pathOf url =
     (let p = takeWhile (\<lambda>c. c \<noteq> CHR ''?'' \<and> c \<noteq> CHR ''#'') url
      in if p \<noteq> [] \<and> last p = CHR ''/'' then butlast p else p)"

definition matchRoute :: "string \<Rightarrow> route" where
  "matchRoute url =
     (let p = pathOf url; seg = drop 9 p
      in if p = ''/workers'' then RouteWorkers
         else if take 9 p = ''/workers/'' \<and> seg \<noteq> [] \<and> CHR ''/'' \<notin> set seg then
           (case percentDecode seg of Some workerId \<Rightarrow> RouteWorker workerId | None \<Rightarrow> RouteBadParam)
         else RouteNone)"

text \<open>
  \<open>bodyParser.json()\<close> parses the body only of a request with the JSON content type;
  for every other request \<open>req.body\<close> is \<open>{}\<close>, for which the result \<open>NoBody\<close> stands.
\<close>

definition jsonBodyParser :: "request \<Rightarrow> body" where
  "jsonBodyParser req = (if reqJson req then reqBody req else NoBody)"

subsection \<open>RegistryServer\<close>

definition isPortAvailable :: "env \<Rightarrow> world \<Rightarrow> js_error + bool" where
  "isPortAvailable e w =
     (case bindPort e w of
        BindError err \<Rightarrow> if code err = Some ''EADDRINUSE'' then Inr False else Inl err
      | BindListening \<Rightarrow> Inr True)"

text \<open>
  The four routes of the registry app; each handler reads and writes \<open>workers\<close>.
  \<open>workers["__proto__"] = body\<close> sets the prototype of the object and adds no entry.
\<close>

definition getWorkers :: "WorkerRegistry \<Rightarrow> response \<times> WorkerRegistry" where
  "getWorkers ws = (Response (Inr (Some ws)), ws)"

definition postWorker :: "string \<Rightarrow> WorkerDefinition \<Rightarrow> WorkerRegistry \<Rightarrow> response \<times> WorkerRegistry" where
  "postWorker workerId reqbody ws =
     (Response (Inr None),
      if workerId = ''__proto__'' then ws else setProperty workerId reqbody ws)"

definition deleteWorker :: "string \<Rightarrow> WorkerRegistry \<Rightarrow> response \<times> WorkerRegistry" where
  "deleteWorker workerId ws = (Response (Inr None), AList.delete workerId ws)"

definition deleteWorkers :: "WorkerRegistry \<Rightarrow> response \<times> WorkerRegistry" where
  "deleteWorkers ws = (Response (Inr None), [])"

text \<open>
  The app: routing, body parsing, handler. A request that matches no route gets a
  response that is not JSON. A body that is a non-empty registry is no definition; such
  a POST is outside the typed model and is answered like an unmatched request.
\<close>

definition notJson :: response where
  "notJson = Response (Inl (JsError None None))"

definition registryApp :: "request \<Rightarrow> WorkerRegistry \<Rightarrow> response \<times> WorkerRegistry" where
  "registryApp req ws =
     (case matchRoute (reqPath req) of
        RouteWorkers \<Rightarrow>
          (case reqMethod req of
             GET \<Rightarrow> getWorkers ws
           | DELETE \<Rightarrow> deleteWorkers ws
           | POST \<Rightarrow> (notJson, ws))
      | RouteWorker workerId \<Rightarrow>
          (case reqMethod req of
             POST \<Rightarrow>
               (case jsonBodyParser req of
                  DefinitionBody d \<Rightarrow> postWorker workerId d ws
                | NoBody \<Rightarrow> postWorker workerId emptyObject ws
                | RegistryBody r \<Rightarrow>
                    if r = [] then postWorker workerId emptyObject ws else (notJson, ws))
           | DELETE \<Rightarrow> deleteWorker workerId ws
           | GET \<Rightarrow> (notJson, ws))
      | RouteBadParam \<Rightarrow> (notJson, ws)
      | RouteNone \<Rightarrow> (notJson, ws))"

definition startWorkerRegistry :: "env \<Rightarrow> world \<Rightarrow> (js_error + unit) \<times> world \<times> event list" where
  "startWorkerRegistry e w =
     (case isPortAvailable e w of
        Inl err \<Rightarrow> (Inl err, w, [Called StartWorkerRegistry])
      | Inr available \<Rightarrow>
          if available \<and> server w = None
          then (Inr (), w\<lparr>server := Some Listening\<rparr>,
                [Called StartWorkerRegistry, Listen DevRegistry])
          else (Inr (), w, [Called StartWorkerRegistry]))"

definition stopWorkerRegistry :: "world \<Rightarrow> world \<times> event list" where
  \<comment> \<open>\<open>await terminator?.terminate()\<close>\<close>
  "stopWorkerRegistry w =
     ((case server w of None \<Rightarrow> w | Some _ \<Rightarrow> w\<lparr>server := Some Terminated\<rparr>),
      [Called StopWorkerRegistry])"

definition stopHandOffReceiverServer :: "world \<Rightarrow> world \<times> event list" where
  \<comment> \<open>\<open>await handOffReceiverTerminator?.terminate()\<close>\<close>
  "stopHandOffReceiverServer w =
     ((case handOffReceiverServer w of
         None \<Rightarrow> w
       | Some _ \<Rightarrow> w\<lparr>handOffReceiverServer := Some Terminated\<rparr>),
      [Called StopHandOffReceiverServer])"

subsection \<open>HandoffCoordinator\<close>

definition handOffableWorkers :: "WorkerRegistry \<Rightarrow> int option \<Rightarrow> WorkerRegistry" where
  "handOffableWorkers ws own =
     filter (\<lambda>(_, workerDefintion).
               handOffReceiverPort workerDefintion \<noteq> None \<and>
               handOffReceiverPort workerDefintion \<noteq> own) ws"

definition chosenIndex :: "unit_double \<Rightarrow> nat \<Rightarrow> nat" where
  \<comment> \<open>\<open>Math.floor(Math.random() * handOffableWorkers.length)\<close>\<close>
  "chosenIndex r n = floorProduct (significand r) (scale r) n"

text \<open>
  Lines 95-132 of \<open>handOff\<close>, the block under \<open>if (server)\<close>. Reading the list outside
  its range yields \<open>undefined\<close>, and destructuring that throws a TypeError outside the
  \<open>try\<close>; this is the \<open>Inl\<close> result. The POST to the chosen receiver carries no
  \<open>Content-Type\<close> header.
\<close>

definition handOffPush :: "env \<Rightarrow> world \<Rightarrow> (js_error + unit) \<times> world \<times> event list" where
  "handOffPush e w =
     (if server w \<noteq> None then
        (let hs = handOffableWorkers (workers w) (ownHandOffReceiverPort w) in
         if length hs > 0 then
           (let i = chosenIndex (mathRandom e) (length hs) in
            if i < length hs then
              (let (chosenHandOffName, chosenHandOff) = hs ! i;
                   (w1, tr1) = stopWorkerRegistry w;
                   req = \<lparr>reqMethod = POST,
                          reqEndpoint = Receiver (host chosenHandOff)
                                                 (handOffReceiverPort chosenHandOff),
                          reqPath = ''/'', reqJson = False,
                          reqBody = RegistryBody (workers w1)\<rparr>;
                   (res, w2) = fetch e req w1
               in (Inr (), w2,
                   [LoggerDebug (''Handing off local service registry to ''
                                 @ chosenHandOffName @ ''...''),
                    ConsoleLog ''stopping registry''] @ tr1 @
                   [ConsoleLog ''passing off'', Fetch req] @
                   (case res of Inr _ \<Rightarrow> [ConsoleLog ''done''] | Inl err \<Rightarrow> [ConsoleError err])))
            else (Inl (JsError None None), w, []))
         else (Inr (), w,
               [LoggerDebug ''No other wrangler processes available to hand off local service registry to.'']))
      else (Inr (), w, []))"

definition handOff :: "env \<Rightarrow> world \<Rightarrow> (js_error + unit) \<times> world \<times> event list" where
  "handOff e w =
     (case handOffPush e w of
        (Inl err, w1, tr) \<Rightarrow> (Inl err, w1, Called HandOff # tr)
      | (Inr _, w1, tr) \<Rightarrow>
          (let (w2, tr2) = stopWorkerRegistry w1;
               (w3, tr3) = stopHandOffReceiverServer w2
           in (Inr (), w3, Called HandOff # tr @ tr2 @ tr3)))"

subsection \<open>HandoffReceiver\<close>

text \<open>
  The handler of \<open>POST /\<close> that \<open>registerWorker\<close> installs (lines 162-164), applied to
  \<open>req.body\<close>. A failure of \<open>startWorkerRegistry\<close> is a rejection of the handler;
  otherwise it answers \<open>null\<close>.
\<close>

definition handOffReceiverPost :: "env \<Rightarrow> WorkerRegistry \<Rightarrow> world \<Rightarrow> (js_error + response) \<times> world \<times> event list" where
  "handOffReceiverPost e reqbody w =
     (let w1 = w\<lparr>workers := reqbody\<rparr>;
          (r, w2, tr) = startWorkerRegistry e w1
      in (case r of Inl err \<Rightarrow> (Inl err, w2, tr) | Inr _ \<Rightarrow> (Inr (Response (Inr None)), w2, tr)))"

text \<open>
  The receiver app (line 161): the route \<open>POST /\<close>, \<open>jsonBodyParser\<close>, then the handler.
  \<open>{}\<close> is the empty registry. A body that is a non-empty definition is no registry; such
  a POST is outside the typed model and is answered like an unmatched request.
\<close>

definition handOffReceiverApp :: "env \<Rightarrow> request \<Rightarrow> world \<Rightarrow> (js_error + response) \<times> world \<times> event list" where
  "handOffReceiverApp e req w =
     (if reqMethod req = POST \<and> pathOf (reqPath req) = [] then
        (case jsonBodyParser req of
           RegistryBody r \<Rightarrow> handOffReceiverPost e r w
         | NoBody \<Rightarrow> handOffReceiverPost e [] w
         | DefinitionBody d \<Rightarrow>
             if d = emptyObject then handOffReceiverPost e [] w else (Inr notJson, w, []))
      else (Inr notJson, w, []))"

subsection \<open>RegistryClient\<close>

text \<open>
  \<open>registerWorker\<close>. When the bind of the receiver fails, \<open>address()\<close> is \<open>null\<close>, the
  error is logged and \<open>fetch\<close> is called; the server then emits its \<open>error\<close> event, for
  which no listener is installed, and the process ends with that error before the
  request is sent: this is the \<open>Inl\<close> result, and the environment's \<open>fetch\<close> is not asked.
  Otherwise the result is the response, or \<open>undefined\<close> (\<open>None\<close>) when the request failed.
\<close>

definition registerWorker :: "env \<Rightarrow> string \<Rightarrow> WorkerDefinition \<Rightarrow> world \<Rightarrow> (js_error + response option) \<times> world \<times> event list" where
  "registerWorker e name definition w =
     (let w1 = w\<lparr>handOffReceiverServer := Some Created\<rparr>;
          (w2, tr2) =
            (case receiverAddress e of
               None \<Rightarrow>
                 (w1, [Listen (Receiver None None),
                       LoggerError ''Could not create hand-off receiver for local service registry''])
             | Some p \<Rightarrow>
                 (w1\<lparr>handOffReceiverServer := Some Listening, ownHandOffReceiverPort := Some p\<rparr>,
                  [Listen (Receiver None (Some p))]));
          req = \<lparr>reqMethod = POST, reqEndpoint = DevRegistry,
                 reqPath = ''/workers/'' @ name, reqJson = True,
                 reqBody = DefinitionBody
                   (definition\<lparr>handOffReceiverPort := ownHandOffReceiverPort w2\<rparr>)\<rparr>
      in (case receiverAddress e of
            None \<Rightarrow> (Inl (receiverListenError e), w2, tr2 @ [Fetch req])
          | Some _ \<Rightarrow>
              (let (res, w3) = fetch e req w2
               in (case res of
                     Inr resp \<Rightarrow> (Inr (Some resp), w3, tr2 @ [Fetch req])
                   | Inl err \<Rightarrow>
                       (Inr None, w3, tr2 @ [Fetch req] @
                          (if \<not> causeIsConnectionError err
                           then [LoggerError ''Failed to register worker in local service registry'']
                           else [LoggerDebug ''Failed to register worker in local service registry'']))))))"

definition unregisterWorker :: "env \<Rightarrow> string \<Rightarrow> world \<Rightarrow> (js_error + unit) \<times> world \<times> event list" where
  "unregisterWorker e name w =
     (let req = \<lparr>reqMethod = DELETE, reqEndpoint = DevRegistry,
                 reqPath = ''/workers/'' @ name, reqJson = False, reqBody = NoBody\<rparr>;
          (res, w1) = fetch e req w
      in (case res of
            Inl err \<Rightarrow>
              (if \<not> causeIsConnectionError err then Inl err else Inr (), w1, [Fetch req])
          | Inr _ \<Rightarrow>
              (case handOff e w1 of
                 (Inl err, w2, tr) \<Rightarrow>
                   (if \<not> causeIsConnectionError err then Inl err else Inr (), w2, Fetch req # tr)
               | (Inr _, w2, tr) \<Rightarrow> (Inr (), w2, Fetch req # tr))))"

definition getRegisteredWorkers :: "env \<Rightarrow> world \<Rightarrow> (js_error + WorkerRegistry option) \<times> world \<times> event list" where
  "getRegisteredWorkers e w =
     (let req = \<lparr>reqMethod = GET, reqEndpoint = DevRegistry,
                 reqPath = ''/workers'', reqJson = False, reqBody = NoBody\<rparr>;
          (res, w1) = fetch e req w
      in (case (case res of Inl err \<Rightarrow> Inl err | Inr resp \<Rightarrow> json resp) of
            Inr registry \<Rightarrow> (Inr registry, w1, [Fetch req])
          | Inl err \<Rightarrow>
              (if \<not> causeIsConnectionError err then Inl err else Inr None, w1, [Fetch req])))"

text \<open>
  The type \<open>Config\<close> is declared in \<open>./config\<close>. Of a service binding the function reads
  \<open>service\<close>, of a Durable Object binding \<open>script_name\<close>, which may be \<open>undefined\<close>;
  \<open>services\<close> and \<open>durableObjects\<close> may be \<open>undefined\<close> themselves.
\<close>

record ServiceBinding =
  binding :: string
  service :: string

record DurableObjectBinding =
  name :: string
  class_name :: string
  script_name :: "string option"

record DurableObjects =
  bindings :: "DurableObjectBinding list"

definition getBoundRegisteredWorkers :: "env \<Rightarrow> ServiceBinding list option \<Rightarrow> DurableObjects option \<Rightarrow> world \<Rightarrow> (js_error + WorkerRegistry) \<times> world \<times> event list" where
  "getBoundRegisteredWorkers e services' durableObjects' w =
     (let serviceNames = map service (case services' of None \<Rightarrow> [] | Some ss \<Rightarrow> ss);
          durableObjectServices =
            map script_name
              (bindings (case durableObjects' of None \<Rightarrow> \<lparr>bindings = []\<rparr> | Some d \<Rightarrow> d));
          (r, w1, tr) = getRegisteredWorkers e w
      in (case r of
            Inl err \<Rightarrow> (Inl err, w1, tr)
          | Inr workerDefinitions \<Rightarrow>
              (Inr (fromEntries
                     (filter (\<lambda>(key, _).
                                key \<in> set serviceNames \<or> Some key \<in> set durableObjectServices)
                        (case workerDefinitions of None \<Rightarrow> [] | Some ws \<Rightarrow> ws))),
               w1, tr)))"

subsection \<open>The loopback network\<close>

text \<open>
  A network on which no request is lost: a request to the well-known port is served by
  the RegistryServer of this process when it listens, else by that of the other process
  holding the port, else it is refused. No hand-off receiver of another process is
  reachable.
\<close>

definition loopbackFetch :: "request \<Rightarrow> world \<Rightarrow> (js_error + response) \<times> world" where
  "loopbackFetch req w =
     (case reqEndpoint req of
        DevRegistry \<Rightarrow>
          (if server w = Some Listening then
             (let (res, ws) = registryApp req (workers w) in (Inr res, w\<lparr>workers := ws\<rparr>))
           else
             (case peerWorkers w of
                Some pws \<Rightarrow>
                  (let (res, ws) = registryApp req pws in (Inr res, w\<lparr>peerWorkers := Some ws\<rparr>))
              | None \<Rightarrow> (Inl (JsError None (Some ''ECONNREFUSED'')), w)))
      | Receiver h p \<Rightarrow> (Inl (JsError None (Some ''ECONNREFUSED'')), w))"

section \<open>The timestamp store (issue-triager, class IssuesStore)\<close>

text \<open>
  The Durable Object keeps one string under the key \<open>lastUpdatedTimestamp\<close>.
  Its storage is a key-value store, modelled as a map from keys to stored strings;
  \<open>storage.get\<close> of a key that was never put yields \<open>undefined\<close>, here \<open>None\<close>.
  The two \<open>console.log\<close> calls print the value and influence nothing.
\<close>

type_synonym storage = "string \<rightharpoonup> string"

definition getLastUpdatedTimestamp :: "storage \<Rightarrow> string" where
  "getLastUpdatedTimestamp st =
     (case st ''lastUpdatedTimestamp'' of
        None \<Rightarrow> ''2000-01-01T00:00:00Z''
      | Some timestamp \<Rightarrow>
          \<comment> \<open>\<open>if (timestamp)\<close>: the empty string is falsy\<close>
          (if timestamp \<noteq> [] then timestamp else ''2000-01-01T00:00:00Z''))"

definition setLastUpdatedTimestamp :: "string \<Rightarrow> storage \<Rightarrow> storage" where
  "setLastUpdatedTimestamp timestamp st = st(''lastUpdatedTimestamp'' \<mapsto> timestamp)"

section \<open>Plain worker names\<close>

text \<open>
  A name made of ASCII letters, digits, \<open>-\<close> and \<open>_\<close>, not empty and not \<open>__proto__\<close>.
  Such a name is one path segment that the URL parser and the router leave as it is,
  and an ordinary key of an object.
\<close>

definition plainChar :: "char \<Rightarrow> bool" where
  "plainChar c =
     (let n = (of_char c :: nat)
      in (48 \<le> n \<and> n \<le> 57) \<or> (65 \<le> n \<and> n \<le> 90) \<or> (97 \<le> n \<and> n \<le> 122)
         \<or> c = CHR ''-'' \<or> c = CHR ''_'')"

definition plainName :: "string \<Rightarrow> bool" where
  "plainName nm = (nm \<noteq> [] \<and> list_all plainChar nm \<and> nm \<noteq> ''__proto__'')"

section \<open>Example inputs\<close>

text \<open>
  Concrete inputs at which the theorems below are evaluated. Two values of
  \<open>Math.random()\<close>: \<open>1 / 2\<close>, and \<open>7505999378950826 / 2\<^sup>5\<^sup>3\<close>, which lies just below
  \<open>5 / 6\<close>. A definition. An environment whose network is \<open>loopbackFetch\<close> and whose port
  probe succeeds exactly when nobody holds the well-known port; one in which the bind of
  the receiver fails; one whose every request fails with an error that is no connection
  error; one with the second value of \<open>Math.random()\<close>. The states: a fresh process; a
  process that registered worker \<open>a\<close> while no registry was reachable; a process that owns
  the registry with three workers of which \<open>a\<close> is its own; the same with seven workers; an
  owner as in the filtering example; the process of worker \<open>c\<close>, whose receiver listens on
  port 50300; that process after it has owned and stopped a RegistryServer before. Last,
  the request that \<open>handOff\<close> of the owner with three workers sends to the receiver of \<open>c\<close>.
\<close>

definition half :: unit_double where
  "half = Abs_unit_double (1, 1)"


definition exampleDefinition :: WorkerDefinition where
  "exampleDefinition =
     \<lparr>port = Some 8787, protocol = Some Http, host = Some ''127.0.0.1'', mode = Some Local,
      headers = None, durableObjects = Some [], durableObjectsHost = None,
      durableObjectsPort = None, handOffReceiverPort = None\<rparr>"

definition exampleEnv :: env where
  "exampleEnv =
     \<lparr>fetch = loopbackFetch,
      bindPort = (\<lambda>w. if server w = Some Listening \<or> peerWorkers w \<noteq> None
                      then BindError (JsError (Some ''EADDRINUSE'') None) else BindListening),
      receiverAddress = Some 50123,
      receiverListenError = JsError (Some ''EMFILE'') None,
      mathRandom = half\<rparr>"

definition failingEnv :: env where
  "failingEnv = exampleEnv\<lparr>receiverAddress := None\<rparr>"

definition brokenEnv :: env where
  "brokenEnv = exampleEnv\<lparr>fetch := (\<lambda>req w. (Inl (JsError None (Some ''ENOTFOUND'')), w))\<rparr>"


definition freshWorld :: world where
  "freshWorld =
     \<lparr>server = None, handOffReceiverServer = None, ownHandOffReceiverPort = None,
      workers = [], peerWorkers = None\<rparr>"

definition registeredWorld :: world where
  "registeredWorld = fst (snd (registerWorker exampleEnv ''a'' exampleDefinition freshWorld))"

definition ownerWorld :: world where
  "ownerWorld =
     \<lparr>server = Some Listening, handOffReceiverServer = Some Listening,
      ownHandOffReceiverPort = Some 50123,
      workers = [(''a'', exampleDefinition\<lparr>handOffReceiverPort := Some 50123\<rparr>),
                 (''b'', exampleDefinition\<lparr>handOffReceiverPort := Some 50200\<rparr>),
                 (''c'', exampleDefinition\<lparr>handOffReceiverPort := Some 50300\<rparr>)],
      peerWorkers = None\<rparr>"


definition servicesWorld :: world where
  "servicesWorld =
     \<lparr>server = Some Listening, handOffReceiverServer = None, ownHandOffReceiverPort = None,
      workers = [(''svcA'', exampleDefinition), (''svcB'', exampleDefinition),
                 (''other'', exampleDefinition)],
      peerWorkers = None\<rparr>"

definition candidateWorld :: world where
  "candidateWorld =
     freshWorld\<lparr>handOffReceiverServer := Some Listening, ownHandOffReceiverPort := Some 50300\<rparr>"

definition formerOwnerWorld :: world where
  "formerOwnerWorld = candidateWorld\<lparr>server := Some Terminated\<rparr>"

definition handOffRequest :: request where
  "handOffRequest =
     \<lparr>reqMethod = POST, reqEndpoint = Receiver (Some ''127.0.0.1'') (Some 50300),
      reqPath = ''/'', reqJson = False, reqBody = RegistryBody (workers ownerWorld)\<rparr>"

section \<open>Theorems\<close>

subsection \<open>The rounded product\<close>

lemma roundShift_lower: "0 < roundShift p \<Longrightarrow> 2 ^ 53 * 2 ^ (roundShift p - 1) \<le> p"
proof (induction p rule: roundShift.induct)
  case (1 p)
  show ?case
  proof (cases "p < 2 ^ 53")
    case True
    with "1.prems" show ?thesis by (simp add: roundShift.simps)
  next
    case False
    then have s: "roundShift p = Suc (roundShift (p div 2))"
      by (subst roundShift.simps) simp
    show ?thesis
    proof (cases "roundShift (p div 2)")
      case 0
      with s False show ?thesis by simp
    next
      case (Suc t)
      then have "2 ^ 53 * 2 ^ t \<le> p div 2"
        using "1.IH" False by simp
      then have "2 * (2 ^ 53 * 2 ^ t) \<le> p" by simp
      then show ?thesis by (simp add: s Suc)
    qed
  qed
qed

lemma roundHalfEven_0: "roundHalfEven p 0 = p"
  by (simp add: roundHalfEven_def)

lemma roundHalfEven_between:
  "p div 2 ^ s * 2 ^ s \<le> roundHalfEven p s \<and> roundHalfEven p s \<le> (p div 2 ^ s + 1) * 2 ^ s"
  by (auto simp: roundHalfEven_def Let_def)

lemma roundHalfEven_upper: "roundHalfEven p (Suc t) \<le> p + 2 ^ t"
proof (cases "2 * (p mod 2 ^ Suc t) \<ge> 2 ^ Suc t")
  case True
  then have "2 ^ t \<le> p mod 2 ^ Suc t" by simp
  moreover have "p div 2 ^ Suc t * 2 ^ Suc t + p mod 2 ^ Suc t = p"
    by (rule div_mult_mod_eq)
  ultimately have "(p div 2 ^ Suc t + 1) * 2 ^ Suc t \<le> p + 2 ^ t"
    by (simp add: algebra_simps)
  then show ?thesis
    using roundHalfEven_between [of p "Suc t"] by linarith
next
  case False
  then have "roundHalfEven p (Suc t) = p div 2 ^ Suc t * 2 ^ Suc t"
    by (auto simp: roundHalfEven_def Let_def)
  moreover have "p div 2 ^ Suc t * 2 ^ Suc t \<le> p" by simp
  ultimately show ?thesis by linarith
qed

lemma floorProduct_less:
  assumes m53: "m < 2 ^ 53" and mk: "m < 2 ^ k" and n: "0 < n"
  shows "floorProduct m k n < n"
proof -
  define p where "p = m * n"
  define s where "s = roundShift p"
  define B :: nat where "B = 2 ^ 53"
  have pn: "p + n \<le> n * 2 ^ k"
  proof -
    from mk have "m + 1 \<le> 2 ^ k" by simp
    then have "(m + 1) * n \<le> 2 ^ k * n" by (rule mult_le_mono1)
    then show ?thesis by (simp add: p_def algebra_simps)
  qed
  have "roundHalfEven p s < n * 2 ^ k"
  proof (cases s)
    case 0
    then show ?thesis using pn n by (simp add: roundHalfEven_0)
  next
    case (Suc t)
    then have "B * 2 ^ t \<le> p" using roundShift_lower [of p] by (simp add: s_def B_def)
    moreover have "p < B * n" using m53 n by (simp add: p_def B_def)
    ultimately have "B * 2 ^ t < B * n" by (rule le_less_trans)
    then have "2 ^ t < n" by simp
    with roundHalfEven_upper [of p t] pn show ?thesis by (simp add: Suc)
  qed
  then show ?thesis
    by (simp add: floorProduct_def p_def s_def less_mult_imp_div_less)
qed



lemma unit_double_bounds:
  "significand r < 2 ^ 53" "significand r < 2 ^ scale r" "scale r \<le> 1074"
  using Rep_unit_double [of r]
  by (auto simp: significand_def scale_def split: prod.splits)

lemma chosenIndex_range: "0 < n \<Longrightarrow> chosenIndex r n < n"
  unfolding chosenIndex_def
  by (rule floorProduct_less [OF unit_double_bounds(1,2)])



lemma half_rep: "significand half = 1" "scale half = 1"
  by (simp_all add: significand_def scale_def half_def Abs_unit_double_inverse)


lemma chosenIndex_half: "chosenIndex half 2 = 1"
  by (simp add: chosenIndex_def half_rep floorProduct_def roundShift.simps roundHalfEven_def)




subsection \<open>Objects as entry lists\<close>

lemma update_fresh: "k \<notin> fst ` set al \<Longrightarrow> AList.update k v al = al @ [(k, v)]"
  by (induction al) auto

lemma foldl_update_distinct:
  "distinct (map fst (acc @ es)) \<Longrightarrow>
   foldl (\<lambda>obj (k, v). AList.update k v obj) acc es = acc @ es"
proof (induction es arbitrary: acc)
  case Nil
  then show ?case by simp
next
  case (Cons x xs)
  obtain k v where x: "x = (k, v)" by (cases x)
  from Cons.prems have fresh: "k \<notin> fst ` set acc" by (auto simp: x)
  from Cons.prems have "distinct (map fst ((acc @ [(k, v)]) @ xs))" by (auto simp: x)
  from Cons.IH [OF this] show ?case by (simp add: x update_fresh [OF fresh])
qed

lemma fromEntries_distinct: "distinct (map fst es) \<Longrightarrow> fromEntries es = es"
  using foldl_update_distinct [of "[]" es] by (simp add: fromEntries_def)

lemma map_of_insertIndex:
  "k \<notin> fst ` set obj \<Longrightarrow> map_of (insertIndex i k v obj) = (map_of obj)(k \<mapsto> v)"
proof (induction obj)
  case Nil
  then show ?case by simp
next
  case (Cons x xs)
  obtain k' v' where x: "x = (k', v')" by (cases x)
  from Cons.prems have ne: "k' \<noteq> k" and fresh: "k \<notin> fst ` set xs" by (auto simp: x)
  show ?case
    using Cons.IH [OF fresh] ne
    by (auto simp: x fun_upd_twist split: option.splits)
qed

lemma map_of_setProperty: "map_of (setProperty k v obj) = (map_of obj)(k \<mapsto> v)"
proof (cases "k \<in> fst ` set obj")
  case True
  then show ?thesis by (simp add: setProperty_def update_conv')
next
  case False
  show ?thesis
  proof (cases "arrayIndex k")
    case None
    with False have "setProperty k v obj = AList.update k v obj"
      by (simp add: setProperty_def update_fresh)
    then show ?thesis by (simp add: update_conv')
  next
    case (Some i)
    with False show ?thesis by (simp add: setProperty_def map_of_insertIndex)
  qed
qed

lemma set_insertIndex: "set (insertIndex i k v obj) = insert (k, v) (set obj)"
  by (induction obj) (auto split: option.splits)

lemma distinct_setProperty:
  "distinct (map fst obj) \<Longrightarrow> distinct (map fst (setProperty k v obj))"
proof -
  have ins: "distinct (map fst (insertIndex i k v xs))"
    if "distinct (map fst xs)" "k \<notin> fst ` set xs" for i xs
    using that
  proof (induction xs)
    case Nil
    then show ?case by simp
  next
    case (Cons x xs)
    then show ?case
      by (auto simp: set_insertIndex split: option.splits)
  qed
  assume "distinct (map fst obj)"
  then show ?thesis
    by (auto simp: setProperty_def distinct_update ins split: option.splits)
qed

subsection \<open>Routing of plain names\<close>

lemma plainChar_not_special:
  "plainChar c \<Longrightarrow> c \<noteq> CHR ''/'' \<and> c \<noteq> CHR ''?'' \<and> c \<noteq> CHR ''#'' \<and> c \<noteq> CHR ''%''"
  by (auto simp: plainChar_def Let_def)

lemma percentDecode_plain: "CHR ''%'' \<notin> set s \<Longrightarrow> percentDecode s = Some s"
  by (induction s rule: percentDecode.induct) auto

lemma plainName_chars:
  assumes "plainName nm"
  shows "CHR ''/'' \<notin> set nm" "CHR ''?'' \<notin> set nm" "CHR ''#'' \<notin> set nm" "CHR ''%'' \<notin> set nm"
    "nm \<noteq> []" "nm \<noteq> ''__proto__''"
  using assms plainChar_not_special
  by (auto simp: plainName_def list_all_iff)

lemma pathOf_worker:
  assumes "plainName nm"
  shows "pathOf (''/workers/'' @ nm) = ''/workers/'' @ nm"
proof -
  have all: "\<forall>c \<in> set (''/workers/'' @ nm). c \<noteq> CHR ''?'' \<and> c \<noteq> CHR ''#''"
    using plainName_chars(2,3) [OF assms] by auto
  have tw: "takeWhile (\<lambda>c. c \<noteq> CHR ''?'' \<and> c \<noteq> CHR ''#'') (''/workers/'' @ nm) = ''/workers/'' @ nm"
    by (rule takeWhile_eq_all_conv [THEN iffD2]) (use all in blast)
  have "last (''/workers/'' @ nm) = last nm"
    using plainName_chars(5) [OF assms] by simp
  moreover have "last nm \<in> set nm" using plainName_chars(5) [OF assms] by simp
  ultimately have "last (''/workers/'' @ nm) \<noteq> CHR ''/''"
    using plainName_chars(1) [OF assms] by metis
  then show ?thesis unfolding pathOf_def tw Let_def by simp
qed

lemma matchRoute_worker:
  assumes "plainName nm"
  shows "matchRoute (''/workers/'' @ nm) = RouteWorker nm"
proof -
  have ne: "''/workers/'' @ nm \<noteq> ''/workers''" by simp
  show ?thesis
    unfolding matchRoute_def pathOf_worker [OF assms] Let_def
    using plainName_chars(1,5) [OF assms] percentDecode_plain [OF plainName_chars(4) [OF assms]]
    by simp
qed

lemmas matchRoute_worker' = matchRoute_worker [simplified]

lemma matchRoute_workers: "matchRoute ''/workers'' = RouteWorkers"
  by (simp add: matchRoute_def pathOf_def)

lemma registryApp_get:
  "registryApp \<lparr>reqMethod = GET, reqEndpoint = ep, reqPath = ''/workers'',
                reqJson = j, reqBody = b\<rparr> ws = (Response (Inr (Some ws)), ws)"
  by (simp add: registryApp_def matchRoute_workers getWorkers_def)


lemma registryApp_delete:
  assumes "plainName nm"
  shows "registryApp \<lparr>reqMethod = DELETE, reqEndpoint = ep, reqPath = ''/workers/'' @ nm,
                       reqJson = j, reqBody = b\<rparr> ws = (Response (Inr None), AList.delete nm ws)"
  by (simp add: registryApp_def matchRoute_worker' [OF assms] deleteWorker_def)

lemma plainName_examples:
  "plainName ''a''" "plainName ''b''" "plainName ''d''" "plainName ''svcA''"
  by (simp_all add: plainName_def plainChar_def)


subsection \<open>The shutdown sequence\<close>


lemma stopWorkerRegistry_simps:
  "workers (fst (stopWorkerRegistry w)) = workers w"
  "server (fst (stopWorkerRegistry w)) \<in> {None, Some Terminated}"
  "handOffReceiverServer (fst (stopWorkerRegistry w)) = handOffReceiverServer w"
  "snd (stopWorkerRegistry w) = [Called StopWorkerRegistry]"
  by (simp_all add: stopWorkerRegistry_def split: option.splits)

lemma stopHandOffReceiverServer_simps:
  "server (fst (stopHandOffReceiverServer w)) = server w"
  "handOffReceiverServer (fst (stopHandOffReceiverServer w)) \<in> {None, Some Terminated}"
  "snd (stopHandOffReceiverServer w) = [Called StopHandOffReceiverServer]"
  by (simp_all add: stopHandOffReceiverServer_def split: option.splits)

lemma handOffPush_returns: "fst (handOffPush e w) = Inr ()"
proof -
  have "chosenIndex (mathRandom e) (length hs) < length hs"
    if "hs \<noteq> []" for hs :: WorkerRegistry
    using chosenIndex_range [of "length hs" "mathRandom e"] that by simp
  then show ?thesis
    by (auto simp: handOffPush_def Let_def split: prod.splits)
qed

lemma handOff_shape:
  "handOff e w =
     (Inr (),
      fst (stopHandOffReceiverServer (fst (stopWorkerRegistry (fst (snd (handOffPush e w)))))),
      Called HandOff # snd (snd (handOffPush e w)) @
        [Called StopWorkerRegistry, Called StopHandOffReceiverServer])"
  using handOffPush_returns [of e w]
  by (cases "handOffPush e w")
     (simp add: handOff_def Let_def stopWorkerRegistry_def stopHandOffReceiverServer_def
           split: prod.splits sum.splits)

lemma handOffPush_no_candidates:
  assumes "server w = None \<or> handOffableWorkers (workers w) (ownHandOffReceiverPort w) = []"
  shows "fst (snd (handOffPush e w)) = w" "Fetch req \<notin> set (snd (snd (handOffPush e w)))"
  using assms by (auto simp: handOffPush_def Let_def)

lemma handOffPush_candidate:
  assumes "server w \<noteq> None"
    and "hs = handOffableWorkers (workers w) (ownHandOffReceiverPort w)" "hs \<noteq> []"
    and "c = snd (hs ! chosenIndex (mathRandom e) (length hs))"
    and "req = \<lparr>reqMethod = POST, reqEndpoint = Receiver (host c) (handOffReceiverPort c),
                 reqPath = ''/'', reqJson = False, reqBody = RegistryBody (workers w)\<rparr>"
  shows "snd (snd (handOffPush e w)) =
           [LoggerDebug (''Handing off local service registry to ''
               @ fst (hs ! chosenIndex (mathRandom e) (length hs)) @ ''...''),
            ConsoleLog ''stopping registry'', Called StopWorkerRegistry,
            ConsoleLog ''passing off'', Fetch req] @
           (case fst (fetch e req (fst (stopWorkerRegistry w))) of
              Inr _ \<Rightarrow> [ConsoleLog ''done''] | Inl err \<Rightarrow> [ConsoleError err])"
proof -
  have "chosenIndex (mathRandom e) (length hs) < length hs"
    using chosenIndex_range [of "length hs" "mathRandom e"] assms(3) by simp
  then show ?thesis
    using assms(1,3) unfolding assms(4,5) assms(2)
    by (simp add: handOffPush_def Let_def case_prod_beta stopWorkerRegistry_simps)
qed

lemma unregisterWorker_success:
  assumes "fst (fetch e \<lparr>reqMethod = DELETE, reqEndpoint = DevRegistry,
                         reqPath = ''/workers/'' @ nm, reqJson = False, reqBody = NoBody\<rparr> w) = Inr resp"
    and "fst (handOff e (snd (fetch e \<lparr>reqMethod = DELETE, reqEndpoint = DevRegistry,
                         reqPath = ''/workers/'' @ nm, reqJson = False, reqBody = NoBody\<rparr> w))) = Inr ()"
  shows "unregisterWorker e nm w =
           (Inr (),
            fst (snd (handOff e (snd (fetch e \<lparr>reqMethod = DELETE, reqEndpoint = DevRegistry,
                         reqPath = ''/workers/'' @ nm, reqJson = False, reqBody = NoBody\<rparr> w)))),
            Fetch \<lparr>reqMethod = DELETE, reqEndpoint = DevRegistry,
                         reqPath = ''/workers/'' @ nm, reqJson = False, reqBody = NoBody\<rparr> #
            snd (snd (handOff e (snd (fetch e \<lparr>reqMethod = DELETE, reqEndpoint = DevRegistry,
                         reqPath = ''/workers/'' @ nm, reqJson = False, reqBody = NoBody\<rparr> w)))))"
  using assms
  by (simp add: unregisterWorker_def Let_def case_prod_beta split: sum.splits prod.splits)

lemma unregisterWorker_failure:
  assumes "fst (fetch e \<lparr>reqMethod = DELETE, reqEndpoint = DevRegistry,
                         reqPath = ''/workers/'' @ nm, reqJson = False, reqBody = NoBody\<rparr> w) = Inl err"
  shows "unregisterWorker e nm w =
           (if causeCode err = Some ''ECONNRESET'' \<or> causeCode err = Some ''ECONNREFUSED''
            then Inr () else Inl err,
            snd (fetch e \<lparr>reqMethod = DELETE, reqEndpoint = DevRegistry,
                         reqPath = ''/workers/'' @ nm, reqJson = False, reqBody = NoBody\<rparr> w),
            [Fetch \<lparr>reqMethod = DELETE, reqEndpoint = DevRegistry,
                         reqPath = ''/workers/'' @ nm, reqJson = False, reqBody = NoBody\<rparr>])"
  using assms
  by (auto simp: unregisterWorker_def Let_def case_prod_beta causeIsConnectionError_def
           split: sum.splits option.splits)

lemma registeredWorld_eq:
  "registeredWorld = freshWorld\<lparr>handOffReceiverServer := Some Listening,
                                 ownHandOffReceiverPort := Some 50123\<rparr>"
  by (simp add: registeredWorld_def registerWorker_def exampleEnv_def freshWorld_def
        loopbackFetch_def Let_def)

lemma ownerWorld_candidates:
  "handOffableWorkers (workers ownerWorld) (ownHandOffReceiverPort ownerWorld)
     = [(''b'', exampleDefinition\<lparr>handOffReceiverPort := Some 50200\<rparr>),
        (''c'', exampleDefinition\<lparr>handOffReceiverPort := Some 50300\<rparr>)]"
  by (simp add: handOffableWorkers_def ownerWorld_def)


lemma handOff_ownerWorld_trace:
  "snd (snd (handOff exampleEnv ownerWorld)) =
     [Called HandOff,
      LoggerDebug ''Handing off local service registry to c...'',
      ConsoleLog ''stopping registry'', Called StopWorkerRegistry,
      ConsoleLog ''passing off'', Fetch handOffRequest,
      ConsoleError (JsError None (Some ''ECONNREFUSED'')),
      Called StopWorkerRegistry, Called StopHandOffReceiverServer]"
proof -
  have s: "server ownerWorld \<noteq> None" by (simp add: ownerWorld_def)
  have r: "mathRandom exampleEnv = half" "fetch exampleEnv = loopbackFetch"
    by (simp_all add: exampleEnv_def)
  have len: "length (handOffableWorkers (workers ownerWorld)
             (ownHandOffReceiverPort ownerWorld)) = 2"
    by (simp add: ownerWorld_candidates)
  have i: "chosenIndex (mathRandom exampleEnv) (length (handOffableWorkers (workers ownerWorld)
             (ownHandOffReceiverPort ownerWorld))) = 1"
    unfolding len r by (rule chosenIndex_half)
  have h: "handOffableWorkers (workers ownerWorld) (ownHandOffReceiverPort ownerWorld) \<noteq> []"
    by (simp add: ownerWorld_candidates)
  note tr = handOffPush_candidate [OF s refl h refl refl, of exampleEnv]
  show ?thesis
    unfolding handOff_shape [of exampleEnv ownerWorld] snd_conv tr i
    by (simp add: ownerWorld_candidates exampleDefinition_def handOffRequest_def r
          loopbackFetch_def)
qed

lemma handOffReceiverApp_json:
  assumes "reqMethod req = POST" "pathOf (reqPath req) = []" "reqJson req"
    and "reqBody req = RegistryBody r"
  shows "workers (fst (snd (handOffReceiverApp e req w))) = r"
  using assms
  by (auto simp: handOffReceiverApp_def jsonBodyParser_def handOffReceiverPost_def
        startWorkerRegistry_def isPortAvailable_def Let_def
        split: sum.splits bind_outcome.splits)

lemma handOffReceiverApp_not_json:
  assumes "reqMethod req = POST" "pathOf (reqPath req) = []" "\<not> reqJson req"
  shows "workers (fst (snd (handOffReceiverApp e req w))) = []"
  using assms
  by (auto simp: handOffReceiverApp_def jsonBodyParser_def handOffReceiverPost_def
        startWorkerRegistry_def isPortAvailable_def Let_def
        split: sum.splits bind_outcome.splits)

subsection \<open>unregisterWorker\<close>

text \<open>
  C1, as the code has it. When the DELETE succeeds, \<open>unregisterWorker\<close> runs \<open>handOff\<close>
  before it returns: the call does not raise, its trace ends with the two stop calls, and
  afterwards neither the RegistryServer nor the HandoffReceiver of this process listens.
  When the DELETE fails with a connection-refused or connection-reset error the call
  returns without raising and does nothing else: the \<open>catch\<close> is entered from the \<open>fetch\<close>,
  so \<open>handOff\<close> is skipped. Any other error of the DELETE propagates.
\<close>

theorem C1_unregisterWorker:
  fixes e :: env and w :: world and nm :: string
  defines "req \<equiv> \<lparr>reqMethod = DELETE, reqEndpoint = DevRegistry,
                    reqPath = ''/workers/'' @ nm, reqJson = False, reqBody = NoBody\<rparr>"
  shows
  "(\<forall>resp. fst (fetch e req w) = Inr resp \<longrightarrow>
       fst (unregisterWorker e nm w) = Inr ()
       \<and> (\<exists>tr. snd (snd (unregisterWorker e nm w)) =
               Fetch req # Called HandOff # tr @
               [Called StopWorkerRegistry, Called StopHandOffReceiverServer])
       \<and> server (fst (snd (unregisterWorker e nm w))) \<in> {None, Some Terminated}
       \<and> handOffReceiverServer (fst (snd (unregisterWorker e nm w))) \<in> {None, Some Terminated})
   \<and> (\<forall>err. fst (fetch e req w) = Inl err \<and>
          (causeCode err = Some ''ECONNREFUSED'' \<or> causeCode err = Some ''ECONNRESET'') \<longrightarrow>
       unregisterWorker e nm w = (Inr (), snd (fetch e req w), [Fetch req]))
   \<and> (\<forall>err. fst (fetch e req w) = Inl err \<and>
          causeCode err \<noteq> Some ''ECONNREFUSED'' \<and> causeCode err \<noteq> Some ''ECONNRESET'' \<longrightarrow>
       fst (unregisterWorker e nm w) = Inl err)"
proof (intro conjI allI impI)
  fix resp assume a: "fst (fetch e req w) = Inr resp"
  define w1 where "w1 = snd (fetch e req w)"
  note shape = handOff_shape [of e w1]
  have h: "fst (handOff e w1) = Inr ()" by (simp add: shape)
  note u = unregisterWorker_success [OF a [unfolded req_def] h [unfolded w1_def req_def]]
  show "fst (unregisterWorker e nm w) = Inr ()" by (simp add: u)
  show "\<exists>tr. snd (snd (unregisterWorker e nm w)) =
               Fetch req # Called HandOff # tr @
               [Called StopWorkerRegistry, Called StopHandOffReceiverServer]"
    using shape by (simp add: u req_def w1_def)
  show "server (fst (snd (unregisterWorker e nm w))) \<in> {None, Some Terminated}"
    using stopWorkerRegistry_simps(2) [of "fst (snd (handOffPush e w1))"] shape
    by (simp add: u req_def w1_def stopHandOffReceiverServer_simps(1))
  show "handOffReceiverServer (fst (snd (unregisterWorker e nm w))) \<in> {None, Some Terminated}"
    using stopHandOffReceiverServer_simps(2)
            [of "fst (stopWorkerRegistry (fst (snd (handOffPush e w1))))"] shape
    by (simp add: u req_def w1_def)
next
  fix err
  assume "fst (fetch e req w) = Inl err \<and>
          (causeCode err = Some ''ECONNREFUSED'' \<or> causeCode err = Some ''ECONNRESET'')"
  then show "unregisterWorker e nm w = (Inr (), snd (fetch e req w), [Fetch req])"
    using unregisterWorker_failure [of e nm w err] by (auto simp: req_def)
next
  fix err
  assume "fst (fetch e req w) = Inl err \<and>
          causeCode err \<noteq> Some ''ECONNREFUSED'' \<and> causeCode err \<noteq> Some ''ECONNRESET''"
  then show "fst (unregisterWorker e nm w) = Inl err"
    using unregisterWorker_failure [of e nm w err] by (auto simp: req_def)
qed

theorem C1_unregisterWorker_witness:
  "fst (fetch exampleEnv
          \<lparr>reqMethod = DELETE, reqEndpoint = DevRegistry, reqPath = ''/workers/a'',
           reqJson = False, reqBody = NoBody\<rparr> ownerWorld) = Inr (Response (Inr None))
   \<and> fst (unregisterWorker exampleEnv ''a'' ownerWorld) = Inr ()
   \<and> server (fst (snd (unregisterWorker exampleEnv ''a'' ownerWorld))) \<in> {None, Some Terminated}
   \<and> handOffReceiverServer (fst (snd (unregisterWorker exampleEnv ''a'' ownerWorld)))
        \<in> {None, Some Terminated}
   \<and> fst (fetch exampleEnv
          \<lparr>reqMethod = DELETE, reqEndpoint = DevRegistry, reqPath = ''/workers/a'',
           reqJson = False, reqBody = NoBody\<rparr> registeredWorld)
        = Inl (JsError None (Some ''ECONNREFUSED''))
   \<and> unregisterWorker exampleEnv ''a'' registeredWorld
        = (Inr (), registeredWorld,
           [Fetch \<lparr>reqMethod = DELETE, reqEndpoint = DevRegistry,
                   reqPath = ''/workers/a'', reqJson = False, reqBody = NoBody\<rparr>])
   \<and> fst (fetch brokenEnv
          \<lparr>reqMethod = DELETE, reqEndpoint = DevRegistry, reqPath = ''/workers/a'',
           reqJson = False, reqBody = NoBody\<rparr> ownerWorld)
        = Inl (JsError None (Some ''ENOTFOUND''))
   \<and> fst (unregisterWorker brokenEnv ''a'' ownerWorld) = Inl (JsError None (Some ''ENOTFOUND''))"
proof -
  have h3: "fst (fetch exampleEnv
          \<lparr>reqMethod = DELETE, reqEndpoint = DevRegistry, reqPath = ''/workers/a'',
           reqJson = False, reqBody = NoBody\<rparr> ownerWorld) = Inr (Response (Inr None))"
    using registryApp_delete [OF plainName_examples(1), of DevRegistry False NoBody]
    by (simp add: exampleEnv_def ownerWorld_def loopbackFetch_def)
  have h4: "fetch exampleEnv
          \<lparr>reqMethod = DELETE, reqEndpoint = DevRegistry, reqPath = ''/workers/a'',
           reqJson = False, reqBody = NoBody\<rparr> registeredWorld
        = (Inl (JsError None (Some ''ECONNREFUSED'')), registeredWorld)"
    by (simp add: registeredWorld_eq exampleEnv_def freshWorld_def loopbackFetch_def)
  have h5: "fst (fetch brokenEnv
          \<lparr>reqMethod = DELETE, reqEndpoint = DevRegistry, reqPath = ''/workers/a'',
           reqJson = False, reqBody = NoBody\<rparr> ownerWorld)
        = Inl (JsError None (Some ''ENOTFOUND''))"
    by (simp add: brokenEnv_def)
  have "fst (unregisterWorker exampleEnv ''a'' ownerWorld) = Inr ()
        \<and> server (fst (snd (unregisterWorker exampleEnv ''a'' ownerWorld)))
             \<in> {None, Some Terminated}
        \<and> handOffReceiverServer (fst (snd (unregisterWorker exampleEnv ''a'' ownerWorld)))
             \<in> {None, Some Terminated}"
    using C1_unregisterWorker [of exampleEnv "''a''" ownerWorld] h3 by simp
  moreover have "unregisterWorker exampleEnv ''a'' registeredWorld
        = (Inr (), registeredWorld,
           [Fetch \<lparr>reqMethod = DELETE, reqEndpoint = DevRegistry,
                   reqPath = ''/workers/a'', reqJson = False, reqBody = NoBody\<rparr>])"
    using C1_unregisterWorker [of exampleEnv "''a''" registeredWorld] h4 by simp
  moreover have "fst (unregisterWorker brokenEnv ''a'' ownerWorld)
                   = Inl (JsError None (Some ''ENOTFOUND''))"
    using C1_unregisterWorker [of brokenEnv "''a''" ownerWorld] h5 by simp
  ultimately show ?thesis using h3 h4 h5 by simp
qed

text \<open>
  C1 as stated fails where no registry is present: a process that registered worker \<open>a\<close>
  while nothing listened on the well-known port unregisters it; the DELETE is refused, the
  call returns normally, \<open>handOff\<close> is never called and the HandoffReceiver still listens.
\<close>

theorem C1_counterexample:
  "fst (fetch exampleEnv
          \<lparr>reqMethod = DELETE, reqEndpoint = DevRegistry, reqPath = ''/workers/a'',
           reqJson = False, reqBody = NoBody\<rparr> registeredWorld)
     = Inl (JsError None (Some ''ECONNREFUSED''))
   \<and> fst (unregisterWorker exampleEnv ''a'' registeredWorld) = Inr ()
   \<and> Called HandOff \<notin> set (snd (snd (unregisterWorker exampleEnv ''a'' registeredWorld)))
   \<and> Called StopHandOffReceiverServer
        \<notin> set (snd (snd (unregisterWorker exampleEnv ''a'' registeredWorld)))
   \<and> handOffReceiverServer (fst (snd (unregisterWorker exampleEnv ''a'' registeredWorld)))
        = Some Listening"
  by (simp add: registeredWorld_eq unregisterWorker_def exampleEnv_def freshWorld_def
        loopbackFetch_def causeIsConnectionError_def Let_def)

subsection \<open>registerWorker\<close>

text \<open>
  C2, as the code has it. \<open>registerWorker\<close> starts the HandoffReceiver and then calls
  \<open>fetch\<close> exactly once, with the POST to \<open>/workers/{name}\<close> on the well-known host whose
  body is the definition in which \<open>handOffReceiverPort\<close> is this process's receiver port.
  When the receiver is bound, the state it returns is the one left by that request and its
  result is the response, or \<open>undefined\<close> when the request failed; when the bind failed,
  the process ends with the error of the bind. It never calls \<open>startWorkerRegistry\<close> and
  never binds the well-known port.
\<close>

theorem C2_registerWorker:
  fixes e :: env and w :: world and nm :: string and d :: WorkerDefinition
  defines "w2 \<equiv> (case receiverAddress e of
                    None \<Rightarrow> w\<lparr>handOffReceiverServer := Some Created\<rparr>
                  | Some p \<Rightarrow> w\<lparr>handOffReceiverServer := Some Listening,
                                ownHandOffReceiverPort := Some p\<rparr>)"
  defines "req \<equiv> \<lparr>reqMethod = POST, reqEndpoint = DevRegistry,
                    reqPath = ''/workers/'' @ nm, reqJson = True,
                    reqBody = DefinitionBody
                      (d\<lparr>handOffReceiverPort := ownHandOffReceiverPort w2\<rparr>)\<rparr>"
  shows
  "(\<exists>pre post. snd (snd (registerWorker e nm d w)) = pre @ Fetch req # post
        \<and> hd pre = Listen (Receiver None (receiverAddress e))
        \<and> (\<forall>r. Fetch r \<notin> set pre) \<and> (\<forall>r. Fetch r \<notin> set post))
   \<and> fst (snd (registerWorker e nm d w))
        = (case receiverAddress e of None \<Rightarrow> w2 | Some p \<Rightarrow> snd (fetch e req w2))
   \<and> fst (registerWorker e nm d w)
        = (case receiverAddress e of
             None \<Rightarrow> Inl (receiverListenError e)
           | Some p \<Rightarrow> Inr (case fst (fetch e req w2) of Inl err \<Rightarrow> None | Inr resp \<Rightarrow> Some resp))
   \<and> Called StartWorkerRegistry \<notin> set (snd (snd (registerWorker e nm d w)))
   \<and> Listen DevRegistry \<notin> set (snd (snd (registerWorker e nm d w)))"
proof (intro conjI)
  show "\<exists>pre post. snd (snd (registerWorker e nm d w)) = pre @ Fetch req # post
        \<and> hd pre = Listen (Receiver None (receiverAddress e))
        \<and> (\<forall>r. Fetch r \<notin> set pre) \<and> (\<forall>r. Fetch r \<notin> set post)"
  proof (cases "receiverAddress e")
    case None
    show ?thesis
      apply (rule exI [of _ "[Listen (Receiver None None),
               LoggerError ''Could not create hand-off receiver for local service registry'']"])
      apply (rule exI [of _ "drop 3 (snd (snd (registerWorker e nm d w)))"])
      using None
      by (simp add: registerWorker_def Let_def case_prod_beta req_def w2_def split: sum.splits)
  next
    case (Some p)
    show ?thesis
      apply (rule exI [of _ "[Listen (Receiver None (Some p))]"])
      apply (rule exI [of _ "drop 2 (snd (snd (registerWorker e nm d w)))"])
      using Some
      by (simp add: registerWorker_def Let_def case_prod_beta req_def w2_def split: sum.splits)
  qed
qed (auto simp: registerWorker_def Let_def case_prod_beta req_def w2_def
          split: sum.splits option.splits)

theorem C2_registerWorker_witness:
  "fst (snd (registerWorker exampleEnv ''a'' exampleDefinition freshWorld)) = registeredWorld
   \<and> fst (registerWorker exampleEnv ''d'' exampleDefinition ownerWorld)
        = Inr (Some (Response (Inr None)))
   \<and> map_of (workers (fst (snd (registerWorker exampleEnv ''d'' exampleDefinition ownerWorld))))
        ''d'' = Some (exampleDefinition\<lparr>handOffReceiverPort := Some 50123\<rparr>)
   \<and> Called StartWorkerRegistry
        \<notin> set (snd (snd (registerWorker exampleEnv ''d'' exampleDefinition ownerWorld)))
   \<and> fst (registerWorker failingEnv ''d'' exampleDefinition ownerWorld)
        = Inl (JsError (Some ''EMFILE'') None)"
proof -
  note inst = C2_registerWorker [of exampleEnv "''d''" exampleDefinition ownerWorld]
  have r: "receiverAddress exampleEnv = Some 50123" "fetch exampleEnv = loopbackFetch"
    by (simp_all add: exampleEnv_def)
  have s: "server ownerWorld = Some Listening" by (simp add: ownerWorld_def)
  have post: "registryApp \<lparr>reqMethod = POST, reqEndpoint = DevRegistry, reqPath = ''/workers/d'',
                reqJson = True, reqBody = DefinitionBody dd\<rparr> ws
              = (Response (Inr None), setProperty ''d'' dd ws)" for dd ws
    using matchRoute_worker [OF plainName_examples(3)]
    by (simp add: registryApp_def jsonBodyParser_def postWorker_def)
  have "fst (registerWorker exampleEnv ''d'' exampleDefinition ownerWorld)
          = Inr (Some (Response (Inr None)))"
    using inst by (simp add: r s loopbackFetch_def post)
  moreover have "map_of (workers (fst (snd (registerWorker exampleEnv ''d'' exampleDefinition
                    ownerWorld)))) ''d''
                  = Some (exampleDefinition\<lparr>handOffReceiverPort := Some 50123\<rparr>)"
    using inst by (simp add: r s loopbackFetch_def post map_of_setProperty)
  moreover have "Called StartWorkerRegistry
        \<notin> set (snd (snd (registerWorker exampleEnv ''d'' exampleDefinition ownerWorld)))"
    using inst by simp
  moreover have "fst (registerWorker failingEnv ''d'' exampleDefinition ownerWorld)
        = Inl (JsError (Some ''EMFILE'') None)"
    using C2_registerWorker [of failingEnv "''d''" exampleDefinition ownerWorld]
    by (simp add: failingEnv_def exampleEnv_def)
  ultimately show ?thesis by (simp add: registeredWorld_def)
qed

text \<open>
  C2 as stated fails: on a fresh process with the well-known port free, \<open>registerWorker\<close>
  leaves \<open>server\<close> unset; \<open>startWorkerRegistry\<close> is not called and nothing listens on
  the well-known port.
\<close>

theorem C2_counterexample:
  "bindPort exampleEnv freshWorld = BindListening
   \<and> server (fst (snd (registerWorker exampleEnv ''a'' exampleDefinition freshWorld))) = None
   \<and> Called StartWorkerRegistry
        \<notin> set (snd (snd (registerWorker exampleEnv ''a'' exampleDefinition freshWorld)))
   \<and> Listen DevRegistry
        \<notin> set (snd (snd (registerWorker exampleEnv ''a'' exampleDefinition freshWorld)))"
  by (simp add: registerWorker_def exampleEnv_def freshWorld_def loopbackFetch_def
        causeIsConnectionError_def Let_def)




text \<open>
  C8. What the code does when the bind of the receiver fails, on the second call of a
  process whose first call got receiver port 50123: it logs the error and calls \<open>fetch\<close>
  with a definition that carries \<open>handOffReceiverPort\<close> 50123, the port left in the module
  variable by the first call, although the definition passed in has none; and the
  process ends with the error of the bind, so the registration does not proceed. The
  process ends in the same way when the very first call meets the failure.
\<close>

theorem C8_failed_listen:
  "receiverAddress failingEnv = None
   \<and> ownHandOffReceiverPort registeredWorld = Some 50123
   \<and> handOffReceiverPort exampleDefinition = None
   \<and> registerWorker failingEnv ''b'' exampleDefinition registeredWorld
        = (Inl (JsError (Some ''EMFILE'') None),
           registeredWorld\<lparr>handOffReceiverServer := Some Created\<rparr>,
           [Listen (Receiver None None),
            LoggerError ''Could not create hand-off receiver for local service registry'',
            Fetch \<lparr>reqMethod = POST, reqEndpoint = DevRegistry, reqPath = ''/workers/b'',
                   reqJson = True,
                   reqBody = DefinitionBody
                     (exampleDefinition\<lparr>handOffReceiverPort := Some 50123\<rparr>)\<rparr>])
   \<and> fst (registerWorker failingEnv ''a'' exampleDefinition freshWorld)
        = Inl (JsError (Some ''EMFILE'') None)"
  by (simp add: registeredWorld_eq registerWorker_def failingEnv_def exampleEnv_def
        freshWorld_def exampleDefinition_def Let_def)

subsection \<open>HandoffCoordinator and HandoffReceiver\<close>




text \<open>
  C5. Every run of \<open>handOff\<close> returns normally, its last two actions are
  \<open>stopWorkerRegistry\<close> and \<open>stopHandOffReceiverServer\<close>, and after it neither server of
  this process listens. Without a server handle or without candidates no request is made;
  with a candidate the registry is posted, and an error of that POST is written to the
  console and goes no further.
\<close>

theorem C5_handOff:
  "fst (handOff e w) = Inr ()
    \<and> (\<exists>tr. snd (snd (handOff e w))
              = tr @ [Called StopWorkerRegistry, Called StopHandOffReceiverServer])
    \<and> server (fst (snd (handOff e w))) \<in> {None, Some Terminated}
    \<and> handOffReceiverServer (fst (snd (handOff e w))) \<in> {None, Some Terminated}
    \<and> (server w = None \<or> handOffableWorkers (workers w) (ownHandOffReceiverPort w) = []
          \<longrightarrow> (\<forall>req. Fetch req \<notin> set (snd (snd (handOff e w)))))
    \<and> (server w \<noteq> None \<and> handOffableWorkers (workers w) (ownHandOffReceiverPort w) \<noteq> []
          \<longrightarrow> (\<exists>req. Fetch req \<in> set (snd (snd (handOff e w))) \<and>
                 (\<forall>err. fst (fetch e req (fst (stopWorkerRegistry w))) = Inl err
                    \<longrightarrow> ConsoleError err \<in> set (snd (snd (handOff e w))))))"
proof -
  note shape = handOff_shape [of e w]
  have 1: "fst (handOff e w) = Inr ()" by (simp add: shape)
  have 2: "\<exists>tr. snd (snd (handOff e w))
              = tr @ [Called StopWorkerRegistry, Called StopHandOffReceiverServer]"
    by (simp add: shape)
  have 3: "server (fst (snd (handOff e w))) \<in> {None, Some Terminated}"
    using stopWorkerRegistry_simps(2) [of "fst (snd (handOffPush e w))"]
    by (simp add: shape stopHandOffReceiverServer_simps(1))
  have 4: "handOffReceiverServer (fst (snd (handOff e w))) \<in> {None, Some Terminated}"
    using stopHandOffReceiverServer_simps(2) [of "fst (stopWorkerRegistry (fst (snd (handOffPush e w))))"]
    by (simp add: shape)
  have 5: "\<forall>req. Fetch req \<notin> set (snd (snd (handOff e w)))"
    if "server w = None \<or> handOffableWorkers (workers w) (ownHandOffReceiverPort w) = []"
    using handOffPush_no_candidates(2) [OF that] by (simp add: shape)
  have 6: "\<exists>req. Fetch req \<in> set (snd (snd (handOff e w))) \<and>
                 (\<forall>err. fst (fetch e req (fst (stopWorkerRegistry w))) = Inl err
                    \<longrightarrow> ConsoleError err \<in> set (snd (snd (handOff e w))))"
    if c: "server w \<noteq> None \<and> handOffableWorkers (workers w) (ownHandOffReceiverPort w) \<noteq> []"
  proof -
    from c have s: "server w \<noteq> None"
      and h: "handOffableWorkers (workers w) (ownHandOffReceiverPort w) \<noteq> []" by simp_all
    note tr = handOffPush_candidate [OF s refl h refl refl]
    show ?thesis
      by (rule exI, simp only: shape snd_conv tr) auto
  qed
  from 1 2 3 4 5 6 show ?thesis by blast
qed

theorem C5_handOff_witness:
  "server ownerWorld \<noteq> None
   \<and> handOffableWorkers (workers ownerWorld) (ownHandOffReceiverPort ownerWorld) \<noteq> []
   \<and> fst (handOff exampleEnv ownerWorld) = Inr ()
   \<and> server (fst (snd (handOff exampleEnv ownerWorld))) \<in> {None, Some Terminated}
   \<and> handOffReceiverServer (fst (snd (handOff exampleEnv ownerWorld))) \<in> {None, Some Terminated}
   \<and> (\<exists>req. Fetch req \<in> set (snd (snd (handOff exampleEnv ownerWorld))))
   \<and> server freshWorld = None
   \<and> (\<forall>req. Fetch req \<notin> set (snd (snd (handOff exampleEnv freshWorld))))"
proof -
  have h1: "server ownerWorld \<noteq> None" by (simp add: ownerWorld_def)
  have h2: "handOffableWorkers (workers ownerWorld) (ownHandOffReceiverPort ownerWorld) \<noteq> []"
    by (simp add: handOffableWorkers_def ownerWorld_def)
  have h3: "server freshWorld = None" by (simp add: freshWorld_def)
  from C5_handOff [of exampleEnv ownerWorld] C5_handOff [of exampleEnv freshWorld] h1 h2 h3
  show ?thesis by blast
qed

text \<open>
  C9. What the receiver does with the registry that \<open>handOff\<close> posts. The owner of the
  registry \<open>{a, b, c}\<close> hands off to the process of \<open>c\<close>; its POST carries the registry but
  no JSON content type, so the body is not parsed, \<open>req.body\<close> is \<open>{}\<close>, and the receiving
  process takes over the well-known port with an empty registry. Posted with the JSON
  content type, the registry replaces the receiver's own; but a receiving process that
  has owned and stopped a RegistryServer before still holds its \<open>server\<close> handle, so
  \<open>startWorkerRegistry\<close> starts nothing although the port is free.
\<close>

theorem C9_handOff_post_received:
  "Fetch handOffRequest \<in> set (snd (snd (handOff exampleEnv ownerWorld)))
   \<and> reqBody handOffRequest = RegistryBody (workers ownerWorld)
   \<and> map fst (workers ownerWorld) = [''a'', ''b'', ''c'']
   \<and> reqJson handOffRequest = False
   \<and> workers (fst (snd (handOffReceiverApp exampleEnv handOffRequest candidateWorld))) = []
   \<and> server (fst (snd (handOffReceiverApp exampleEnv handOffRequest candidateWorld)))
        = Some Listening
   \<and> workers (fst (snd (handOffReceiverApp exampleEnv (handOffRequest\<lparr>reqJson := True\<rparr>)
                          formerOwnerWorld)))
        = workers ownerWorld
   \<and> bindPort exampleEnv (formerOwnerWorld\<lparr>workers := workers ownerWorld\<rparr>) = BindListening
   \<and> server (fst (snd (handOffReceiverApp exampleEnv (handOffRequest\<lparr>reqJson := True\<rparr>)
                         formerOwnerWorld)))
        = Some Terminated"
proof -
  have 1: "Fetch handOffRequest \<in> set (snd (snd (handOff exampleEnv ownerWorld)))"
    by (simp add: handOff_ownerWorld_trace)
  have p: "pathOf ''/'' = []" by (simp add: pathOf_def)
  have 2: "workers (fst (snd (handOffReceiverApp exampleEnv handOffRequest candidateWorld))) = []"
    by (rule handOffReceiverApp_not_json) (simp_all add: handOffRequest_def p)
  have 3: "server (fst (snd (handOffReceiverApp exampleEnv handOffRequest candidateWorld)))
        = Some Listening"
    by (simp add: handOffReceiverApp_def handOffRequest_def p jsonBodyParser_def
          handOffReceiverPost_def startWorkerRegistry_def isPortAvailable_def exampleEnv_def
          candidateWorld_def freshWorld_def Let_def)
  have 4: "workers (fst (snd (handOffReceiverApp exampleEnv (handOffRequest\<lparr>reqJson := True\<rparr>)
                          formerOwnerWorld)))
        = workers ownerWorld"
    by (rule handOffReceiverApp_json) (simp_all add: handOffRequest_def p)
  have 5: "bindPort exampleEnv (formerOwnerWorld\<lparr>workers := workers ownerWorld\<rparr>) = BindListening"
    by (simp add: exampleEnv_def formerOwnerWorld_def candidateWorld_def freshWorld_def)
  have 6: "server (fst (snd (handOffReceiverApp exampleEnv (handOffRequest\<lparr>reqJson := True\<rparr>)
                         formerOwnerWorld)))
        = Some Terminated"
    by (simp add: handOffReceiverApp_def handOffRequest_def p jsonBodyParser_def
          handOffReceiverPost_def startWorkerRegistry_def isPortAvailable_def exampleEnv_def
          formerOwnerWorld_def candidateWorld_def freshWorld_def Let_def)
  from 1 2 3 4 5 6 show ?thesis
    by (simp add: handOffRequest_def ownerWorld_def)
qed

subsection \<open>Queries\<close>

text \<open>
  C6. \<open>getRegisteredWorkers\<close> returns \<open>undefined\<close> when the GET fails with a
  connection-refused or connection-reset error, returns what \<open>response.json()\<close> yields when
  the GET succeeds, and fails with the error when the GET, or reading the body, fails with
  any other error.
\<close>

theorem C6_getRegisteredWorkers:
  fixes e :: env and w :: world
  defines "req \<equiv> \<lparr>reqMethod = GET, reqEndpoint = DevRegistry, reqPath = ''/workers'',
                    reqJson = False, reqBody = NoBody\<rparr>"
  shows
  "(\<forall>err. fst (fetch e req w) = Inl err \<and>
          (causeCode err = Some ''ECONNREFUSED'' \<or> causeCode err = Some ''ECONNRESET'')
          \<longrightarrow> fst (getRegisteredWorkers e w) = Inr None)
   \<and> (\<forall>resp registry. fst (fetch e req w) = Inr resp \<and> json resp = Inr registry
          \<longrightarrow> fst (getRegisteredWorkers e w) = Inr registry)
   \<and> (\<forall>err. fst (fetch e req w) = Inl err \<and>
          causeCode err \<noteq> Some ''ECONNREFUSED'' \<and> causeCode err \<noteq> Some ''ECONNRESET''
          \<longrightarrow> fst (getRegisteredWorkers e w) = Inl err)
   \<and> (\<forall>resp err. fst (fetch e req w) = Inr resp \<and> json resp = Inl err \<and>
          causeCode err \<noteq> Some ''ECONNREFUSED'' \<and> causeCode err \<noteq> Some ''ECONNRESET''
          \<longrightarrow> fst (getRegisteredWorkers e w) = Inl err)"
  unfolding req_def
  by (auto simp: getRegisteredWorkers_def causeIsConnectionError_def Let_def
           split: prod.splits sum.splits option.splits)

theorem C6_getRegisteredWorkers_witness:
  "fst (fetch exampleEnv \<lparr>reqMethod = GET, reqEndpoint = DevRegistry, reqPath = ''/workers'',
                          reqJson = False, reqBody = NoBody\<rparr> freshWorld)
     = Inl (JsError None (Some ''ECONNREFUSED''))
   \<and> fst (getRegisteredWorkers exampleEnv freshWorld) = Inr None
   \<and> fst (fetch exampleEnv \<lparr>reqMethod = GET, reqEndpoint = DevRegistry, reqPath = ''/workers'',
                          reqJson = False, reqBody = NoBody\<rparr> ownerWorld)
     = Inr (Response (Inr (Some (workers ownerWorld))))
   \<and> fst (getRegisteredWorkers exampleEnv ownerWorld) = Inr (Some (workers ownerWorld))
   \<and> fst (fetch brokenEnv \<lparr>reqMethod = GET, reqEndpoint = DevRegistry, reqPath = ''/workers'',
                          reqJson = False, reqBody = NoBody\<rparr> freshWorld)
     = Inl (JsError None (Some ''ENOTFOUND''))
   \<and> fst (getRegisteredWorkers brokenEnv freshWorld) = Inl (JsError None (Some ''ENOTFOUND''))"
proof -
  have h1: "fst (fetch exampleEnv \<lparr>reqMethod = GET, reqEndpoint = DevRegistry,
                  reqPath = ''/workers'', reqJson = False, reqBody = NoBody\<rparr> freshWorld)
     = Inl (JsError None (Some ''ECONNREFUSED''))"
    by (simp add: exampleEnv_def freshWorld_def loopbackFetch_def)
  have h2: "fst (fetch exampleEnv \<lparr>reqMethod = GET, reqEndpoint = DevRegistry,
                  reqPath = ''/workers'', reqJson = False, reqBody = NoBody\<rparr> ownerWorld)
     = Inr (Response (Inr (Some (workers ownerWorld))))"
    by (simp add: exampleEnv_def ownerWorld_def loopbackFetch_def registryApp_get)
  have h3: "fst (fetch brokenEnv \<lparr>reqMethod = GET, reqEndpoint = DevRegistry,
                  reqPath = ''/workers'', reqJson = False, reqBody = NoBody\<rparr> freshWorld)
     = Inl (JsError None (Some ''ENOTFOUND''))"
    by (simp add: brokenEnv_def)
  have "fst (getRegisteredWorkers exampleEnv freshWorld) = Inr None"
    using C6_getRegisteredWorkers [of exampleEnv freshWorld] h1 by simp
  moreover have "fst (getRegisteredWorkers exampleEnv ownerWorld) = Inr (Some (workers ownerWorld))"
    using C6_getRegisteredWorkers [of exampleEnv ownerWorld] h2 by simp
  moreover have "fst (getRegisteredWorkers brokenEnv freshWorld)
                   = Inl (JsError None (Some ''ENOTFOUND''))"
    using C6_getRegisteredWorkers [of brokenEnv freshWorld] h3 by simp
  ultimately show ?thesis using h1 h2 h3 by simp
qed

text \<open>
  C7. \<open>getBoundRegisteredWorkers\<close> returns the entries of the registry whose key is the
  \<open>service\<close> of a declared service binding or the \<open>script_name\<close> of a declared Durable
  Object binding, in the registry's order and nothing else; the empty object when the
  registry is absent; the error when the query fails. It writes no variable of the process
  (the state it returns is the one left by its single GET), and the route serving that GET
  leaves the store as it is.
\<close>

theorem C7_getBoundRegisteredWorkers:
  fixes e :: env and w :: world
    and ss :: "ServiceBinding list option" and dos :: "DurableObjects option"
  defines "req \<equiv> \<lparr>reqMethod = GET, reqEndpoint = DevRegistry, reqPath = ''/workers'',
                    reqJson = False, reqBody = NoBody\<rparr>"
  defines "serviceNames \<equiv> service ` set (case ss of None \<Rightarrow> [] | Some x \<Rightarrow> x)"
  defines "scriptNames \<equiv>
             {n. Some n \<in> script_name ` set (case dos of None \<Rightarrow> [] | Some x \<Rightarrow> bindings x)}"
  shows
  "(\<forall>ws. fst (getRegisteredWorkers e w) = Inr (Some ws) \<and> distinct (map fst ws) \<longrightarrow>
      fst (getBoundRegisteredWorkers e ss dos w)
        = Inr (filter (\<lambda>(k, d). k \<in> serviceNames \<or> k \<in> scriptNames) ws))
   \<and> (fst (getRegisteredWorkers e w) = Inr None \<longrightarrow>
        fst (getBoundRegisteredWorkers e ss dos w) = Inr [])
   \<and> (\<forall>err. fst (getRegisteredWorkers e w) = Inl err \<longrightarrow>
        fst (getBoundRegisteredWorkers e ss dos w) = Inl err)
   \<and> fst (snd (getBoundRegisteredWorkers e ss dos w)) = snd (fetch e req w)
   \<and> snd (snd (getBoundRegisteredWorkers e ss dos w)) = [Fetch req]
   \<and> snd (registryApp req store) = store"
proof (intro conjI allI impI)
  fix ws
  assume a: "fst (getRegisteredWorkers e w) = Inr (Some ws) \<and> distinct (map fst ws)"
  let ?P = "\<lambda>(k :: string, d :: WorkerDefinition). k \<in> serviceNames \<or> k \<in> scriptNames"
  have same: "filter (\<lambda>(key, _).
                 key \<in> set (map service (case ss of None \<Rightarrow> [] | Some x \<Rightarrow> x)) \<or>
                 Some key \<in> set (map script_name
                    (bindings (case dos of None \<Rightarrow> \<lparr>bindings = []\<rparr> | Some x \<Rightarrow> x)))) ws
              = filter ?P ws"
    by (rule filter_cong) (auto simp: serviceNames_def scriptNames_def split: option.splits)
  have "distinct (map fst (filter ?P ws))"
    using a by (simp add: distinct_map_filter)
  then have "fromEntries (filter ?P ws) = filter ?P ws"
    by (rule fromEntries_distinct)
  with a same show "fst (getBoundRegisteredWorkers e ss dos w) = Inr (filter ?P ws)"
    by (simp add: getBoundRegisteredWorkers_def Let_def case_prod_beta)
next
  assume "fst (getRegisteredWorkers e w) = Inr None"
  then show "fst (getBoundRegisteredWorkers e ss dos w) = Inr []"
    by (simp add: getBoundRegisteredWorkers_def Let_def case_prod_beta fromEntries_def)
next
  fix err assume "fst (getRegisteredWorkers e w) = Inl err"
  then show "fst (getBoundRegisteredWorkers e ss dos w) = Inl err"
    by (simp add: getBoundRegisteredWorkers_def Let_def case_prod_beta)
next
  show "fst (snd (getBoundRegisteredWorkers e ss dos w)) = snd (fetch e req w)"
    by (simp add: getBoundRegisteredWorkers_def getRegisteredWorkers_def Let_def
          case_prod_beta req_def split: sum.splits)
  show "snd (snd (getBoundRegisteredWorkers e ss dos w)) = [Fetch req]"
    by (simp add: getBoundRegisteredWorkers_def getRegisteredWorkers_def Let_def
          case_prod_beta req_def split: sum.splits)
  show "snd (registryApp req store) = store"
    by (simp add: req_def registryApp_get)
qed

theorem C7_getBoundRegisteredWorkers_witness:
  "fst (getRegisteredWorkers exampleEnv servicesWorld) = Inr (Some (workers servicesWorld))
   \<and> distinct (map fst (workers servicesWorld))
   \<and> fst (getBoundRegisteredWorkers exampleEnv
             (Some [\<lparr>binding = ''A'', service = ''svcA''\<rparr>]) None servicesWorld)
        = Inr [(''svcA'', exampleDefinition)]
   \<and> fst (getRegisteredWorkers exampleEnv freshWorld) = Inr None
   \<and> fst (getBoundRegisteredWorkers exampleEnv
             (Some [\<lparr>binding = ''A'', service = ''svcA''\<rparr>]) None freshWorld) = Inr []"
proof -
  have h1: "fst (getRegisteredWorkers exampleEnv servicesWorld) = Inr (Some (workers servicesWorld))"
    by (simp add: getRegisteredWorkers_def exampleEnv_def servicesWorld_def loopbackFetch_def
          registryApp_get Let_def)
  have h2: "distinct (map fst (workers servicesWorld))"
    by (simp add: servicesWorld_def)
  have h3: "fst (getRegisteredWorkers exampleEnv freshWorld) = Inr None"
    by (simp add: getRegisteredWorkers_def exampleEnv_def freshWorld_def loopbackFetch_def
          causeIsConnectionError_def Let_def)
  have "fst (getBoundRegisteredWorkers exampleEnv
             (Some [\<lparr>binding = ''A'', service = ''svcA''\<rparr>]) None servicesWorld)
        = Inr [(''svcA'', exampleDefinition)]"
    using C7_getBoundRegisteredWorkers
            [of exampleEnv servicesWorld "Some [\<lparr>binding = ''A'', service = ''svcA''\<rparr>]" None]
          h1 h2
    by (simp add: servicesWorld_def)
  moreover have "fst (getBoundRegisteredWorkers exampleEnv
             (Some [\<lparr>binding = ''A'', service = ''svcA''\<rparr>]) None freshWorld) = Inr []"
    using C7_getBoundRegisteredWorkers
            [of exampleEnv freshWorld "Some [\<lparr>binding = ''A'', service = ''svcA''\<rparr>]" None]
          h3
    by simp
  ultimately show ?thesis using h1 h2 h3 by simp
qed

subsection \<open>IssuesStore\<close>

text \<open>
  C10. With nothing stored under the key, \<open>getLastUpdatedTimestamp\<close> returns the default
  \<open>2000-01-01T00:00:00Z\<close>; a non-empty string written by \<open>setLastUpdatedTimestamp\<close> is read
  back unchanged; and a stored empty string reads back as the default, because only a
  truthy stored value is returned.
\<close>

theorem C10_timestamp_store:
  "(st ''lastUpdatedTimestamp'' = None \<longrightarrow>
      getLastUpdatedTimestamp st = ''2000-01-01T00:00:00Z'')
   \<and> (t \<noteq> [] \<longrightarrow> getLastUpdatedTimestamp (setLastUpdatedTimestamp t st) = t)
   \<and> getLastUpdatedTimestamp (setLastUpdatedTimestamp [] st) = ''2000-01-01T00:00:00Z''"
  by (simp add: getLastUpdatedTimestamp_def setLastUpdatedTimestamp_def)

theorem C10_timestamp_store_witness:
  "(Map.empty :: storage) ''lastUpdatedTimestamp'' = None
   \<and> getLastUpdatedTimestamp Map.empty = ''2000-01-01T00:00:00Z''
   \<and> ''2024-05-01T12:00:00Z'' \<noteq> []
   \<and> getLastUpdatedTimestamp (setLastUpdatedTimestamp ''2024-05-01T12:00:00Z'' Map.empty)
       = ''2024-05-01T12:00:00Z''"
  using C10_timestamp_store [of Map.empty "''2024-05-01T12:00:00Z''"] by simp

end
